theory Spec2Isabelle
  imports Main
begin

section \<open>The wasm query-engine loader of the driver-adapters executor\<close>

text \<open>
  The development embeds \<^verbatim>\<open>libs/driver-adapters/executor/src/query-engine-wasm.ts\<close>:
  the module-level set \<^verbatim>\<open>initializedModules\<close> and the one exported function
  \<^verbatim>\<open>getQueryEngineForProvider\<close>.  The function is asynchronous and works by effects
  on its surroundings (the module loader, the file system, the WebAssembly engine, the
  glue module's own state).  Each of them is written out: the process state is a record
  that the function takes and returns, every \<^verbatim>\<open>throw\<close> is a value \<open>Inl e\<close>, and the
  effects a call performs are appended to a log kept in the state.
\<close>

subsection \<open>Values, errors, artifacts\<close>

type_synonym provider = string
type_synonym path = string

text \<open>
  A JavaScript value as far as the loader looks at it: \<^verbatim>\<open>undefined\<close>; a reference to
  a function object (a function or a class), which can be called; or any other value (a
  primitive, an object that is not a function), which cannot.  Two references are the
  same object exactly when their addresses are equal.
\<close>

datatype js_value = Undefined | Reference nat | Plain nat

fun callable :: "js_value \<Rightarrow> bool" where
  "callable Undefined = False"
| "callable (Reference a) = True"
| "callable (Plain a) = False"

text \<open>
  The source catches nothing: a failure is the exception of the operation that raised
  it, passed on unchanged to the caller.  The constructors name that exception by the
  operation it comes from, with the specification's names:
  \<^item> \<open>ConfigurationError\<close>: thrown by \<^verbatim>\<open>normaliseProvider\<close>;
  \<^item> \<open>ArtifactNotFoundError\<close>: the rejection of \<^verbatim>\<open>import(...)\<close> for a module that
    does not resolve, or of \<^verbatim>\<open>fs.readFile\<close> for a file that does not exist; it
    carries the path;
  \<^item> \<open>ModuleLinkError\<close>: thrown by \<^verbatim>\<open>new WebAssembly.Module\<close> (the bytes do not
    compile) or by \<^verbatim>\<open>new WebAssembly.Instance\<close> (an import is not supplied);
  \<^item> \<open>ModuleInitError\<close>: thrown by the start export itself;
  \<^item> \<open>TypeError\<close>: thrown by JavaScript when the value called is \<^verbatim>\<open>undefined\<close>
    (the glue module has no \<^verbatim>\<open>__wbg_set_wasm\<close>, or the instance has no
    \<^verbatim>\<open>__wbindgen_start\<close>); the specification has no name for it.
\<close>

datatype error =
    ConfigurationError provider
  | ArtifactNotFoundError path
  | ModuleLinkError
  | ModuleInitError
  | TypeError

text \<open>
  What \<^verbatim>\<open>instance.exports.__wbindgen_start\<close> is: nothing that can be called (not
  exported, or an export that is not a function), a function that throws, or a function
  that returns.
\<close>

datatype start_export = StartAbsent | StartThrows | StartReturns

text \<open>
  A compiled WebAssembly module, as far as linking and starting go: the names of the
  functions it imports from the namespace \<^verbatim>\<open>'./query_engine_bg.js'\<close>, and its start
  export.
\<close>

record wasm_module =
  wasm_imports :: "string list"
  wbindgen_start :: start_export

text \<open>
  The content of a \<^verbatim>\<open>.wasm\<close> file: bytes that \<^verbatim>\<open>new WebAssembly.Module\<close> rejects,
  or the binary of a module.
\<close>

datatype payload = Malformed | Binary wasm_module

text \<open>
  The namespace of a loaded glue module \<^verbatim>\<open>query_engine_bg.js\<close>: its export bindings by
  name.  A name that is not exported reads as \<^verbatim>\<open>undefined\<close>, and so does a name
  whose binding is \<^verbatim>\<open>undefined\<close>.  A function exported as \<^verbatim>\<open>__wbg_set_wasm\<close> is
  taken to be the one that wasm-bindgen generates under that name: it stores its
  argument in a variable of the glue module.
\<close>

type_synonym namespace = "string \<rightharpoonup> js_value"

definition get_export :: "namespace \<Rightarrow> string \<Rightarrow> js_value" where
  "get_export ns name = (case ns name of None \<Rightarrow> Undefined | Some v \<Rightarrow> v)"

subsection \<open>The surroundings of the loader\<close>

text \<open>
  What the source imports and this development does not embed: \<^verbatim>\<open>__dirname\<close> and the
  table behind \<^verbatim>\<open>normaliseProvider\<close> (both from \<^verbatim>\<open>./utils\<close>), and Node's
  \<^verbatim>\<open>path.resolve\<close>.  They are fixed for the life of the process.
\<close>

record deps =
  dirname :: string
  supported :: "provider \<rightharpoonup> string"
  path_resolve :: "string list \<Rightarrow> path"

text \<open>
  The world outside the process, which may change between two calls: the glue modules
  that \<^verbatim>\<open>import(...)\<close> can resolve (each given by its exports), and the files that
  \<^verbatim>\<open>fs.readFile\<close> can read.
\<close>

record world =
  glue_files :: "path \<rightharpoonup> namespace"
  wasm_files :: "path \<rightharpoonup> payload"

text \<open>
  The effects of a call, in the order they happen.  Each is logged when the operation is
  invoked, whether it then succeeds or throws: resolving a module specifier, reading a
  file, compiling bytes, instantiating with the namespace of a glue module as imports
  (giving the instance of that number), handing the export table of an instance to a
  glue module, calling the start export of an instance, adding to the set.
\<close>

datatype effect =
    is_resolve: ResolveModule path
  | is_read: ReadFile path
  | is_compile: Compile payload
  | is_instantiate: Instantiate path nat
  | is_bind: BindExports path nat
  | is_start: Start nat
  | is_mark: MarkInitialized

text \<open>
  The state of the process:
  \<^item> \<open>initializedModules\<close> is the source's module-level \<^verbatim>\<open>Set\<close>;
  \<^item> \<open>loaded\<close> is the runtime's module registry: a specifier that has resolved once
    yields the same namespace object ever after;
  \<^item> \<open>bound_wasm\<close> is, for each loaded glue module, the variable that its
    \<^verbatim>\<open>__wbg_set_wasm\<close> assigns: the instance whose export table it holds;
  \<^item> \<open>instances\<close> counts the WebAssembly instances created so far; the next one gets
    this number as its identity;
  \<^item> \<open>trace\<close> is the log of effects, each with the provider argument of the call that
    performed it.
\<close>

record state =
  initializedModules :: "provider set"
  loaded :: "path \<rightharpoonup> namespace"
  bound_wasm :: "path \<rightharpoonup> nat"
  instances :: nat
  trace :: "(provider \<times> effect) list"

definition initial_state :: state where
  "initial_state =
     \<lparr>initializedModules = {}, loaded = Map.empty, bound_wasm = Map.empty,
      instances = 0, trace = []\<rparr>"

definition log :: "provider \<Rightarrow> effect \<Rightarrow> state \<Rightarrow> state" where
  "log p e st = st\<lparr>trace := trace st @ [(p, e)]\<rparr>"

subsection \<open>The operations the loader calls\<close>

text \<open>
  Modelled from the spec: \<^verbatim>\<open>normaliseProvider\<close> is imported from \<^verbatim>\<open>./utils\<close>, which
  is not among the sources.  The specification describes it as a pure, deterministic
  mapping of a provider identifier to its canonical directory segment, total over the
  supported identifiers, that fails with a \<open>ConfigurationError\<close> on any other one.  The
  table of supported identifiers is the parameter \<open>supported\<close>.
\<close>

definition normaliseProvider :: "deps \<Rightarrow> provider \<Rightarrow> error + string" where
  "normaliseProvider d provider =
     (case supported d provider of
        None \<Rightarrow> Inl (ConfigurationError provider)
      | Some segment \<Rightarrow> Inr segment)"

definition relativePath :: string where
  "relativePath = ''../../../../query-engine/query-engine-wasm/pkg''"

text \<open>The template string of line 15 and the \<^verbatim>\<open>path.resolve\<close> call of lines 20 to 25.\<close>

definition glue_specifier :: "string \<Rightarrow> path" where
  "glue_specifier normalisedProvider =
     relativePath @ ''/'' @ normalisedProvider @ ''/query_engine_bg.js''"

definition wasm_path :: "deps \<Rightarrow> string \<Rightarrow> path" where
  "wasm_path d normalisedProvider =
     path_resolve d [dirname d, relativePath, normalisedProvider, ''query_engine_bg.wasm'']"

text \<open>
  \<^verbatim>\<open>import(specifier)\<close>: a specifier already in the registry yields the namespace that
  is there; otherwise the module is looked up outside, and registered when it is found.
  The result is the reference to the namespace (its key in the registry) and its
  exports.
\<close>

definition import_module ::
  "world \<Rightarrow> provider \<Rightarrow> path \<Rightarrow> state \<Rightarrow> (error + path \<times> namespace) \<times> state" where
  "import_module w p specifier st =
     (let st1 = log p (ResolveModule specifier) st in
      case loaded st1 specifier of
        Some ns \<Rightarrow> (Inr (specifier, ns), st1)
      | None \<Rightarrow>
          (case glue_files w specifier of
             None \<Rightarrow> (Inl (ArtifactNotFoundError specifier), st1)
           | Some ns \<Rightarrow>
               (Inr (specifier, ns), st1\<lparr>loaded := (loaded st1)(specifier \<mapsto> ns)\<rparr>)))"

text \<open>\<^verbatim>\<open>fs.readFile(file)\<close>.\<close>

definition readFile :: "world \<Rightarrow> provider \<Rightarrow> path \<Rightarrow> state \<Rightarrow> (error + payload) \<times> state" where
  "readFile w p file st =
     (let st1 = log p (ReadFile file) st in
      case wasm_files w file of
        None \<Rightarrow> (Inl (ArtifactNotFoundError file), st1)
      | Some bytes \<Rightarrow> (Inr bytes, st1))"

text \<open>
  Lines 28 to 35, the body of the \<^verbatim>\<open>if\<close> after the file has been read:
  \<^verbatim>\<open>
    const module = new WebAssembly.Module(bytes)
    const instance = new WebAssembly.Instance(module, {
      './query_engine_bg.js': engine,
    })
    const wbindgen_start = instance.exports.__wbindgen_start as () => void
    engine.__wbg_set_wasm(instance.exports)
    wbindgen_start()
    initializedModules.add(provider)
  \<close>
  \<^verbatim>\<open>new WebAssembly.Instance\<close> (line 29) throws unless the namespace supplies a
  function for every import.  The call of line 33 throws unless what the namespace has
  as \<^verbatim>\<open>__wbg_set_wasm\<close> is a function.  Reading \<^verbatim>\<open>__wbindgen_start\<close> off the
  export table (line 32) cannot fail; calling it (line 34) fails when it is
  \<^verbatim>\<open>undefined\<close> or when it throws.
\<close>

definition link_and_start ::
  "provider \<Rightarrow> path \<times> namespace \<Rightarrow> payload \<Rightarrow> state \<Rightarrow> (error + unit) \<times> state" where
  "link_and_start provider engine bytes st =
     (let st1 = log provider (Compile bytes) st in
      case bytes of
        Malformed \<Rightarrow> (Inl ModuleLinkError, st1)
      | Binary module \<Rightarrow>
          (let instance = instances st1;
               st2 = log provider (Instantiate (fst engine) instance) st1 in
           if \<not> list_all (\<lambda>name. callable (get_export (snd engine) name))
                    (wasm_imports module)
           then (Inl ModuleLinkError, st2)
           else
             (let st3 = st2\<lparr>instances := Suc instance\<rparr> in
              if \<not> callable (get_export (snd engine) ''__wbg_set_wasm'')
              then (Inl TypeError, st3)
              else
                  (let st4 = log provider (BindExports (fst engine) instance)
                               (st3\<lparr>bound_wasm := (bound_wasm st3)(fst engine \<mapsto> instance)\<rparr>) in
                   case wbindgen_start module of
                     StartAbsent \<Rightarrow> (Inl TypeError, st4)
                   | StartThrows \<Rightarrow> (Inl ModuleInitError, log provider (Start instance) st4)
                   | StartReturns \<Rightarrow>
                       (let st5 = log provider (Start instance) st4;
                            st6 = log provider MarkInitialized
                                    (st5\<lparr>initializedModules :=
                                            insert provider (initializedModules st5)\<rparr>)
                        in (Inr (), st6))))))"

subsection \<open>The loader\<close>

text \<open>
  \<^verbatim>\<open>getQueryEngineForProvider(provider)\<close>, run without interruption: the result, and
  the state after the call.
\<close>

definition getQueryEngineForProvider ::
  "deps \<Rightarrow> world \<Rightarrow> state \<Rightarrow> provider \<Rightarrow> (error + js_value) \<times> state" where
  "getQueryEngineForProvider d w st provider =
     (case normaliseProvider d provider of
        Inl e \<Rightarrow> (Inl e, st)
      | Inr normalisedProvider \<Rightarrow>
          (case import_module w provider (glue_specifier normalisedProvider) st of
             (Inl e, st1) \<Rightarrow> (Inl e, st1)
           | (Inr engine, st1) \<Rightarrow>
               if provider \<notin> initializedModules st1 then
                 (case readFile w provider (wasm_path d normalisedProvider) st1 of
                    (Inl e, st2) \<Rightarrow> (Inl e, st2)
                  | (Inr bytes, st2) \<Rightarrow>
                      (case link_and_start provider engine bytes st2 of
                         (Inl e, st3) \<Rightarrow> (Inl e, st3)
                       | (Inr _, st3) \<Rightarrow> (Inr (get_export (snd engine) ''QueryEngine''), st3)))
               else (Inr (get_export (snd engine) ''QueryEngine''), st1)))"

text \<open>
  A process lifetime: calls made one after the other, each completing before the next
  begins, each in the world as it is at that moment.
\<close>

fun calls :: "deps \<Rightarrow> state \<Rightarrow> (world \<times> provider) list \<Rightarrow> state" where
  "calls d st [] = st"
| "calls d st ((w, p) # cs) = calls d (snd (getQueryEngineForProvider d w st p)) cs"

subsection \<open>The loader as a resumable computation\<close>

text \<open>
  The function is \<^verbatim>\<open>async\<close> and has two \<^verbatim>\<open>await\<close>s: on the promise of
  \<^verbatim>\<open>import(...)\<close> (line 14) and on the promise of \<^verbatim>\<open>fs.readFile(...)\<close> (line 19).
  JavaScript runs a call without interruption from one \<^verbatim>\<open>await\<close> to the next, and
  may run other calls while one is suspended.  A call in progress is a \<open>task\<close>:
  \<^item> \<open>Called\<close>: about to be invoked (the first stretch, lines 13 to 16, runs at the
    invocation);
  \<^item> \<open>AwaitingImport\<close>: suspended at line 14, with the outcome of the import;
  \<^item> \<open>AwaitingRead\<close>: suspended at line 19, holding \<^verbatim>\<open>engine\<close>, with the outcome of
    the read;
  \<^item> \<open>Settled\<close>: the returned promise is fulfilled or rejected.
  \<open>resume\<close> runs a task up to its next suspension.
\<close>

datatype task =
    Called provider
  | AwaitingImport provider string "error + path \<times> namespace"
  | AwaitingRead provider "path \<times> namespace" "error + payload"
  | Settled "error + js_value"

fun resume :: "deps \<Rightarrow> world \<Rightarrow> task \<Rightarrow> state \<Rightarrow> task \<times> state" where
  "resume d w (Called provider) st =
     (case normaliseProvider d provider of
        Inl e \<Rightarrow> (Settled (Inl e), st)
      | Inr normalisedProvider \<Rightarrow>
          (case import_module w provider (glue_specifier normalisedProvider) st of
             (outcome, st1) \<Rightarrow> (AwaitingImport provider normalisedProvider outcome, st1)))"
| "resume d w (AwaitingImport provider normalisedProvider outcome) st =
     (case outcome of
        Inl e \<Rightarrow> (Settled (Inl e), st)
      | Inr engine \<Rightarrow>
          if provider \<notin> initializedModules st then
            (case readFile w provider (wasm_path d normalisedProvider) st of
               (outcome', st1) \<Rightarrow> (AwaitingRead provider engine outcome', st1))
          else (Settled (Inr (get_export (snd engine) ''QueryEngine'')), st))"
| "resume d w (AwaitingRead provider engine outcome) st =
     (case outcome of
        Inl e \<Rightarrow> (Settled (Inl e), st)
      | Inr bytes \<Rightarrow>
          (case link_and_start provider engine bytes st of
             (Inl e, st1) \<Rightarrow> (Settled (Inl e), st1)
           | (Inr _, st1) \<Rightarrow> (Settled (Inr (get_export (snd engine) ''QueryEngine'')), st1)))"
| "resume d w (Settled result) st = (Settled result, st)"

text \<open>
  A schedule names, step by step, the task that runs next; \<open>run\<close> executes it on a pool
  of tasks that share the process state.
\<close>

fun run :: "deps \<Rightarrow> world \<Rightarrow> nat list \<Rightarrow> task list \<times> state \<Rightarrow> task list \<times> state" where
  "run d w [] pool = pool"
| "run d w (i # schedule) (tasks, st) =
     (if i < length tasks
      then (case resume d w (tasks ! i) st of
              (t, st1) \<Rightarrow> run d w schedule (tasks[i := t], st1))
      else run d w schedule (tasks, st))"

text \<open>All the ways of merging two sequences of steps, each kept in its own order.\<close>

fun interleavings :: "'a list \<Rightarrow> 'a list \<Rightarrow> 'a list list" where
  "interleavings [] ys = [ys]"
| "interleavings (x # xs) [] = [x # xs]"
| "interleavings (x # xs) (y # ys) =
     map ((#) x) (interleavings xs (y # ys)) @ map ((#) y) (interleavings (x # xs) ys)"

text \<open>
  \<open>finishes_before a b schedule\<close>: task \<open>a\<close> has run its third and last stretch (lines 28
  to 38) before task \<open>b\<close> runs its second (the test of line 18).
\<close>

fun steps_until :: "nat \<Rightarrow> nat \<Rightarrow> nat list \<Rightarrow> nat" where
  "steps_until i k [] = 0"
| "steps_until i k (j # schedule) =
     (if j = i then (case k of 0 \<Rightarrow> 0 | Suc k' \<Rightarrow> Suc (steps_until i k' schedule))
      else Suc (steps_until i k schedule))"

definition finishes_before :: "nat \<Rightarrow> nat \<Rightarrow> nat list \<Rightarrow> bool" where
  "finishes_before a b schedule \<longleftrightarrow> steps_until a 2 schedule < steps_until b 1 schedule"

subsection \<open>Reading the log\<close>

definition effects_since :: "state \<Rightarrow> state \<Rightarrow> (provider \<times> effect) list" where
  "effects_since st st' = drop (length (trace st)) (trace st')"

definition occurrences :: "provider \<Rightarrow> (effect \<Rightarrow> bool) \<Rightarrow> (provider \<times> effect) list \<Rightarrow> nat" where
  "occurrences p kind tr = length (filter (\<lambda>(q, e). q = p \<and> kind e) tr)"


subsection \<open>Conditions on the world\<close>

text \<open>What \<^verbatim>\<open>import(specifier)\<close> yields in a state and a world.\<close>

definition resolves :: "world \<Rightarrow> state \<Rightarrow> path \<Rightarrow> namespace option" where
  "resolves w st specifier =
     (case loaded st specifier of Some ns \<Rightarrow> Some ns | None \<Rightarrow> glue_files w specifier)"

text \<open>
  The glue module supplies a function for every import of the wasm module and has a
  function \<^verbatim>\<open>__wbg_set_wasm\<close>: instantiation and binding go through.
\<close>

definition links :: "namespace \<Rightarrow> wasm_module \<Rightarrow> bool" where
  "links ns m \<longleftrightarrow>
     list_all (\<lambda>name. callable (get_export ns name)) (wasm_imports m) \<and>
     callable (get_export ns ''__wbg_set_wasm'')"

subsection \<open>A concrete installation\<close>

text \<open>
  An installation to evaluate the loader on.  Its \<^verbatim>\<open>path.resolve\<close> is that of POSIX
  with the root as working directory: the arguments are taken left to right, an absolute
  one starts over, \<^verbatim>\<open>.\<close> and empty segments are dropped and \<^verbatim>\<open>..\<close> steps up.
  Its table of providers has the three identifiers of the specification's scenario and
  one more that shares the segment of the first; only the artifacts of
  \<^verbatim>\<open>postgresql\<close> are installed.
\<close>

fun split_on :: "char \<Rightarrow> string \<Rightarrow> string list" where
  "split_on c [] = [[]]"
| "split_on c (x # xs) =
     (if x = c then [] # split_on c xs
      else (case split_on c xs of [] \<Rightarrow> [[x]] | s # ss \<Rightarrow> (x # s) # ss))"

fun push_segments :: "string list \<Rightarrow> string list \<Rightarrow> string list" where
  "push_segments stack [] = stack"
| "push_segments stack (s # ss) =
     (if s = [] then push_segments stack ss
      else if s = ''.'' then push_segments stack ss
      else if s = ''..'' then push_segments (tl stack) ss
      else push_segments (s # stack) ss)"

definition posix_resolve :: "string list \<Rightarrow> path" where
  "posix_resolve args =
     (case foldl (\<lambda>stack a. push_segments (if take 1 a = ''/'' then [] else stack)
                                (split_on CHR ''/'' a)) [] args of
        [] \<Rightarrow> ''/''
      | stack \<Rightarrow> concat (map (\<lambda>s. ''/'' @ s) (rev stack)))"

definition example_deps :: deps where
  "example_deps =
     \<lparr>dirname = ''/prisma-engines/libs/driver-adapters/executor/src'',
      supported = [''postgresql'' \<mapsto> ''postgresql'', ''postgres'' \<mapsto> ''postgresql'',
                   ''mysql'' \<mapsto> ''mysql'', ''sqlite'' \<mapsto> ''sqlite''],
      path_resolve = posix_resolve\<rparr>"

definition example_glue :: namespace where
  "example_glue =
     [''QueryEngine'' \<mapsto> Reference 1, ''__wbg_set_wasm'' \<mapsto> Reference 2,
      ''__wbindgen_throw'' \<mapsto> Reference 3]"

definition example_module :: wasm_module where
  "example_module = \<lparr>wasm_imports = [''__wbindgen_throw''], wbindgen_start = StartReturns\<rparr>"

definition example_world :: world where
  "example_world =
     \<lparr>glue_files =
        [''../../../../query-engine/query-engine-wasm/pkg/postgresql/query_engine_bg.js''
           \<mapsto> example_glue],
      wasm_files =
        [''/prisma-engines/query-engine/query-engine-wasm/pkg/postgresql/query_engine_bg.wasm''
           \<mapsto> Binary example_module]\<rparr>"

text \<open>The same installation with a start export that throws, and with the binary missing.\<close>

definition failing_start_world :: world where
  "failing_start_world =
     example_world\<lparr>wasm_files :=
       [''/prisma-engines/query-engine/query-engine-wasm/pkg/postgresql/query_engine_bg.wasm''
          \<mapsto> Binary (example_module\<lparr>wbindgen_start := StartThrows\<rparr>)]\<rparr>"

definition missing_binary_world :: world where
  "missing_binary_world = example_world\<lparr>wasm_files := Map.empty\<rparr>"

section \<open>Properties\<close>

subsection \<open>The operations\<close>

lemma example_glue_specifier:
  "glue_specifier ''postgresql'' =
     ''../../../../query-engine/query-engine-wasm/pkg/postgresql/query_engine_bg.js''"
  by (simp add: glue_specifier_def relativePath_def)

lemma example_wasm_path:
  "wasm_path example_deps ''postgresql'' =
     ''/prisma-engines/query-engine/query-engine-wasm/pkg/postgresql/query_engine_bg.wasm''"
  by (simp add: wasm_path_def example_deps_def relativePath_def posix_resolve_def)

lemma import_module_resolves:
  assumes "resolves w st s = Some ns"
  shows "import_module w p s st =
           (Inr (s, ns), st\<lparr>loaded := (loaded st)(s \<mapsto> ns), trace := trace st @ [(p, ResolveModule s)]\<rparr>)"
  using assms
  by (auto simp: import_module_def resolves_def log_def Let_def map_upd_triv split: option.splits)

lemma import_module_fails:
  assumes "resolves w st s = None"
  shows "import_module w p s st =
           (Inl (ArtifactNotFoundError s), st\<lparr>trace := trace st @ [(p, ResolveModule s)]\<rparr>)"
  using assms
  by (auto simp: import_module_def resolves_def log_def Let_def split: option.splits)

lemma link_and_start_returns:
  assumes "links ns m" and "wbindgen_start m = StartReturns"
  shows "link_and_start p (s, ns) (Binary m) st =
           (Inr (),
            st\<lparr>initializedModules := insert p (initializedModules st),
               bound_wasm := (bound_wasm st)(s \<mapsto> instances st),
               instances := Suc (instances st),
               trace := trace st @
                 [(p, Compile (Binary m)), (p, Instantiate s (instances st)),
                  (p, BindExports s (instances st)), (p, Start (instances st)),
                  (p, MarkInitialized)]\<rparr>)"
  using assms
  by (simp add: link_and_start_def links_def log_def Let_def)

lemma link_and_start_throws:
  assumes "links ns m" and "wbindgen_start m = StartThrows"
  shows "link_and_start p (s, ns) (Binary m) st =
           (Inl ModuleInitError,
            st\<lparr>bound_wasm := (bound_wasm st)(s \<mapsto> instances st),
               instances := Suc (instances st),
               trace := trace st @
                 [(p, Compile (Binary m)), (p, Instantiate s (instances st)),
                  (p, BindExports s (instances st)), (p, Start (instances st))]\<rparr>)"
  using assms
  by (simp add: link_and_start_def links_def log_def Let_def)

lemma first_call:
  assumes "supported d p = Some np"
    and "resolves w st (glue_specifier np) = Some ns"
    and "p \<notin> initializedModules st"
    and "wasm_files w (wasm_path d np) = Some (Binary m)"
    and "links ns m"
    and "wbindgen_start m = StartReturns"
  shows "getQueryEngineForProvider d w st p =
           (Inr (get_export ns ''QueryEngine''),
            st\<lparr>initializedModules := insert p (initializedModules st),
               loaded := (loaded st)(glue_specifier np \<mapsto> ns),
               bound_wasm := (bound_wasm st)(glue_specifier np \<mapsto> instances st),
               instances := Suc (instances st),
               trace := trace st @
                 [(p, ResolveModule (glue_specifier np)), (p, ReadFile (wasm_path d np)),
                  (p, Compile (Binary m)), (p, Instantiate (glue_specifier np) (instances st)),
                  (p, BindExports (glue_specifier np) (instances st)),
                  (p, Start (instances st)), (p, MarkInitialized)]\<rparr>)"
  using assms
  by (simp add: getQueryEngineForProvider_def normaliseProvider_def import_module_resolves
      readFile_def log_def link_and_start_returns)

lemma throwing_call:
  assumes "supported d p = Some np"
    and "resolves w st (glue_specifier np) = Some ns"
    and "p \<notin> initializedModules st"
    and "wasm_files w (wasm_path d np) = Some (Binary m)"
    and "links ns m"
    and "wbindgen_start m = StartThrows"
  shows "getQueryEngineForProvider d w st p =
           (Inl ModuleInitError,
            st\<lparr>loaded := (loaded st)(glue_specifier np \<mapsto> ns),
               bound_wasm := (bound_wasm st)(glue_specifier np \<mapsto> instances st),
               instances := Suc (instances st),
               trace := trace st @
                 [(p, ResolveModule (glue_specifier np)), (p, ReadFile (wasm_path d np)),
                  (p, Compile (Binary m)), (p, Instantiate (glue_specifier np) (instances st)),
                  (p, BindExports (glue_specifier np) (instances st)),
                  (p, Start (instances st))]\<rparr>)"
  using assms
  by (simp add: getQueryEngineForProvider_def normaliseProvider_def import_module_resolves
      readFile_def log_def link_and_start_throws)

lemma missing_call:
  assumes "supported d p = Some np"
    and "resolves w st (glue_specifier np) = Some ns"
    and "p \<notin> initializedModules st"
    and "wasm_files w (wasm_path d np) = None"
  shows "getQueryEngineForProvider d w st p =
           (Inl (ArtifactNotFoundError (wasm_path d np)),
            st\<lparr>loaded := (loaded st)(glue_specifier np \<mapsto> ns),
               trace := trace st @
                 [(p, ResolveModule (glue_specifier np)), (p, ReadFile (wasm_path d np))]\<rparr>)"
  using assms
  by (simp add: getQueryEngineForProvider_def normaliseProvider_def import_module_resolves
      readFile_def log_def)

lemma later_call:
  assumes "supported d p = Some np"
    and "resolves w st (glue_specifier np) = Some ns"
    and "p \<in> initializedModules st"
  shows "getQueryEngineForProvider d w st p =
           (Inr (get_export ns ''QueryEngine''),
            st\<lparr>loaded := (loaded st)(glue_specifier np \<mapsto> ns),
               trace := trace st @ [(p, ResolveModule (glue_specifier np))]\<rparr>)"
  using assms
  by (simp add: getQueryEngineForProvider_def normaliseProvider_def import_module_resolves)

lemma resolves_loaded: "loaded st s = Some ns \<Longrightarrow> resolves w st s = Some ns"
  by (simp add: resolves_def)

subsection \<open>The ways a call can end\<close>

lemma unsupported_call:
  assumes "supported d p = None"
  shows "getQueryEngineForProvider d w st p = (Inl (ConfigurationError p), st)"
  using assms by (simp add: getQueryEngineForProvider_def normaliseProvider_def)

lemma unresolved_call:
  assumes "supported d p = Some np"
    and "resolves w st (glue_specifier np) = None"
  shows "getQueryEngineForProvider d w st p =
           (Inl (ArtifactNotFoundError (glue_specifier np)),
            st\<lparr>trace := trace st @ [(p, ResolveModule (glue_specifier np))]\<rparr>)"
  using assms
  by (simp add: getQueryEngineForProvider_def normaliseProvider_def import_module_fails)

lemma attempt:
  assumes "supported d p = Some np"
    and "resolves w st (glue_specifier np) = Some ns"
    and "p \<notin> initializedModules st"
    and "wasm_files w (wasm_path d np) = Some b"
  shows "getQueryEngineForProvider d w st p =
           (case link_and_start p (glue_specifier np, ns) b
                   (st\<lparr>loaded := (loaded st)(glue_specifier np \<mapsto> ns),
                       trace := trace st @
                         [(p, ResolveModule (glue_specifier np)),
                          (p, ReadFile (wasm_path d np))]\<rparr>) of
              (Inl e, st3) \<Rightarrow> (Inl e, st3)
            | (Inr _, st3) \<Rightarrow> (Inr (get_export ns ''QueryEngine''), st3))"
  using assms
  by (simp add: getQueryEngineForProvider_def normaliseProvider_def import_module_resolves
      readFile_def log_def split: prod.splits sum.splits)

lemma malformed_call:
  assumes "supported d p = Some np"
    and "resolves w st (glue_specifier np) = Some ns"
    and "p \<notin> initializedModules st"
    and "wasm_files w (wasm_path d np) = Some Malformed"
  shows "getQueryEngineForProvider d w st p =
           (Inl ModuleLinkError,
            st\<lparr>loaded := (loaded st)(glue_specifier np \<mapsto> ns),
               trace := trace st @
                 [(p, ResolveModule (glue_specifier np)), (p, ReadFile (wasm_path d np)),
                  (p, Compile Malformed)]\<rparr>)"
  by (simp add: attempt [OF assms] link_and_start_def log_def Let_def)

lemma unlinkable_call:
  assumes "supported d p = Some np"
    and "resolves w st (glue_specifier np) = Some ns"
    and "p \<notin> initializedModules st"
    and "wasm_files w (wasm_path d np) = Some (Binary m)"
    and "\<not> list_all (\<lambda>name. callable (get_export ns name)) (wasm_imports m)"
  shows "getQueryEngineForProvider d w st p =
           (Inl ModuleLinkError,
            st\<lparr>loaded := (loaded st)(glue_specifier np \<mapsto> ns),
               trace := trace st @
                 [(p, ResolveModule (glue_specifier np)), (p, ReadFile (wasm_path d np)),
                  (p, Compile (Binary m)),
                  (p, Instantiate (glue_specifier np) (instances st))]\<rparr>)"
  using assms(5)
  by (simp add: attempt [OF assms(1-4)] link_and_start_def log_def Let_def)

lemma unbindable_call:
  assumes "supported d p = Some np"
    and "resolves w st (glue_specifier np) = Some ns"
    and "p \<notin> initializedModules st"
    and "wasm_files w (wasm_path d np) = Some (Binary m)"
    and "list_all (\<lambda>name. callable (get_export ns name)) (wasm_imports m)"
    and "\<not> callable (get_export ns ''__wbg_set_wasm'')"
  shows "getQueryEngineForProvider d w st p =
           (Inl TypeError,
            st\<lparr>loaded := (loaded st)(glue_specifier np \<mapsto> ns),
               instances := Suc (instances st),
               trace := trace st @
                 [(p, ResolveModule (glue_specifier np)), (p, ReadFile (wasm_path d np)),
                  (p, Compile (Binary m)),
                  (p, Instantiate (glue_specifier np) (instances st))]\<rparr>)"
  using assms(5,6)
  by (simp add: attempt [OF assms(1-4)] link_and_start_def log_def Let_def)

lemma startless_call:
  assumes "supported d p = Some np"
    and "resolves w st (glue_specifier np) = Some ns"
    and "p \<notin> initializedModules st"
    and "wasm_files w (wasm_path d np) = Some (Binary m)"
    and "links ns m"
    and "wbindgen_start m = StartAbsent"
  shows "getQueryEngineForProvider d w st p =
           (Inl TypeError,
            st\<lparr>loaded := (loaded st)(glue_specifier np \<mapsto> ns),
               bound_wasm := (bound_wasm st)(glue_specifier np \<mapsto> instances st),
               instances := Suc (instances st),
               trace := trace st @
                 [(p, ResolveModule (glue_specifier np)), (p, ReadFile (wasm_path d np)),
                  (p, Compile (Binary m)), (p, Instantiate (glue_specifier np) (instances st)),
                  (p, BindExports (glue_specifier np) (instances st))]\<rparr>)"
  using assms(5,6)
  by (auto simp add: attempt [OF assms(1-4)] link_and_start_def log_def links_def Let_def)

text \<open>Every call ends in one of ten ways.\<close>

lemma call_cases [case_names unsupported unresolved later missing malformed unlinkable
    unbindable startless throwing first]:
  obtains
    "supported d p = None"
      "getQueryEngineForProvider d w st p = (Inl (ConfigurationError p), st)"
  | np where "supported d p = Some np" "resolves w st (glue_specifier np) = None"
      "getQueryEngineForProvider d w st p =
         (Inl (ArtifactNotFoundError (glue_specifier np)),
          st\<lparr>trace := trace st @ [(p, ResolveModule (glue_specifier np))]\<rparr>)"
  | np ns where "supported d p = Some np" "resolves w st (glue_specifier np) = Some ns"
      "p \<in> initializedModules st"
      "getQueryEngineForProvider d w st p =
         (Inr (get_export ns ''QueryEngine''),
          st\<lparr>loaded := (loaded st)(glue_specifier np \<mapsto> ns),
             trace := trace st @ [(p, ResolveModule (glue_specifier np))]\<rparr>)"
  | np ns where "supported d p = Some np" "resolves w st (glue_specifier np) = Some ns"
      "p \<notin> initializedModules st"
      "getQueryEngineForProvider d w st p =
         (Inl (ArtifactNotFoundError (wasm_path d np)),
          st\<lparr>loaded := (loaded st)(glue_specifier np \<mapsto> ns),
             trace := trace st @
               [(p, ResolveModule (glue_specifier np)), (p, ReadFile (wasm_path d np))]\<rparr>)"
  | np ns where "supported d p = Some np" "resolves w st (glue_specifier np) = Some ns"
      "p \<notin> initializedModules st"
      "getQueryEngineForProvider d w st p =
         (Inl ModuleLinkError,
          st\<lparr>loaded := (loaded st)(glue_specifier np \<mapsto> ns),
             trace := trace st @
               [(p, ResolveModule (glue_specifier np)), (p, ReadFile (wasm_path d np)),
                (p, Compile Malformed)]\<rparr>)"
  | np ns m where "supported d p = Some np" "resolves w st (glue_specifier np) = Some ns"
      "p \<notin> initializedModules st"
      "getQueryEngineForProvider d w st p =
         (Inl ModuleLinkError,
          st\<lparr>loaded := (loaded st)(glue_specifier np \<mapsto> ns),
             trace := trace st @
               [(p, ResolveModule (glue_specifier np)), (p, ReadFile (wasm_path d np)),
                (p, Compile (Binary m)),
                (p, Instantiate (glue_specifier np) (instances st))]\<rparr>)"
  | np ns m where "supported d p = Some np" "resolves w st (glue_specifier np) = Some ns"
      "p \<notin> initializedModules st"
      "getQueryEngineForProvider d w st p =
         (Inl TypeError,
          st\<lparr>loaded := (loaded st)(glue_specifier np \<mapsto> ns),
             instances := Suc (instances st),
             trace := trace st @
               [(p, ResolveModule (glue_specifier np)), (p, ReadFile (wasm_path d np)),
                (p, Compile (Binary m)),
                (p, Instantiate (glue_specifier np) (instances st))]\<rparr>)"
  | np ns m where "supported d p = Some np" "resolves w st (glue_specifier np) = Some ns"
      "p \<notin> initializedModules st"
      "getQueryEngineForProvider d w st p =
         (Inl TypeError,
          st\<lparr>loaded := (loaded st)(glue_specifier np \<mapsto> ns),
             bound_wasm := (bound_wasm st)(glue_specifier np \<mapsto> instances st),
             instances := Suc (instances st),
             trace := trace st @
               [(p, ResolveModule (glue_specifier np)), (p, ReadFile (wasm_path d np)),
                (p, Compile (Binary m)), (p, Instantiate (glue_specifier np) (instances st)),
                (p, BindExports (glue_specifier np) (instances st))]\<rparr>)"
  | np ns m where "supported d p = Some np" "resolves w st (glue_specifier np) = Some ns"
      "p \<notin> initializedModules st"
      "getQueryEngineForProvider d w st p =
         (Inl ModuleInitError,
          st\<lparr>loaded := (loaded st)(glue_specifier np \<mapsto> ns),
             bound_wasm := (bound_wasm st)(glue_specifier np \<mapsto> instances st),
             instances := Suc (instances st),
             trace := trace st @
               [(p, ResolveModule (glue_specifier np)), (p, ReadFile (wasm_path d np)),
                (p, Compile (Binary m)), (p, Instantiate (glue_specifier np) (instances st)),
                (p, BindExports (glue_specifier np) (instances st)),
                (p, Start (instances st))]\<rparr>)"
  | np ns m where "supported d p = Some np" "resolves w st (glue_specifier np) = Some ns"
      "p \<notin> initializedModules st"
      "wasm_files w (wasm_path d np) = Some (Binary m)" "links ns m"
      "wbindgen_start m = StartReturns"
      "getQueryEngineForProvider d w st p =
         (Inr (get_export ns ''QueryEngine''),
          st\<lparr>initializedModules := insert p (initializedModules st),
             loaded := (loaded st)(glue_specifier np \<mapsto> ns),
             bound_wasm := (bound_wasm st)(glue_specifier np \<mapsto> instances st),
             instances := Suc (instances st),
             trace := trace st @
               [(p, ResolveModule (glue_specifier np)), (p, ReadFile (wasm_path d np)),
                (p, Compile (Binary m)), (p, Instantiate (glue_specifier np) (instances st)),
                (p, BindExports (glue_specifier np) (instances st)),
                (p, Start (instances st)), (p, MarkInitialized)]\<rparr>)"
proof (cases "supported d p")
  case None
  then show ?thesis using that(1) unsupported_call by blast
next
  case np: (Some np)
  show ?thesis
  proof (cases "resolves w st (glue_specifier np)")
    case None
    then show ?thesis using that(2) np unresolved_call by blast
  next
    case ns: (Some ns)
    show ?thesis
    proof (cases "p \<in> initializedModules st")
      case True
      then show ?thesis using that(3) np ns later_call by blast
    next
      case fresh: False
      show ?thesis
      proof (cases "wasm_files w (wasm_path d np)")
        case None
        then show ?thesis using that(4) [OF np ns fresh] missing_call [OF np ns fresh] by blast
      next
        case (Some b)
        show ?thesis
        proof (cases b)
          case Malformed
          then show ?thesis
            using that(5) [OF np ns fresh] malformed_call [OF np ns fresh] Some by blast
        next
          case (Binary m)
          with Some have binary: "wasm_files w (wasm_path d np) = Some (Binary m)" by simp
          show ?thesis
          proof (cases "list_all (\<lambda>name. callable (get_export ns name)) (wasm_imports m)")
            case False
            then show ?thesis
              using that(6) [OF np ns fresh] unlinkable_call [OF np ns fresh binary] by blast
          next
            case supplied: True
            show ?thesis
            proof (cases "callable (get_export ns ''__wbg_set_wasm'')")
              case False
              then show ?thesis
                using that(7) [OF np ns fresh] unbindable_call [OF np ns fresh binary supplied]
                by blast
            next
              case True
              with supplied have l: "links ns m" by (simp add: links_def)
              show ?thesis
              proof (cases "wbindgen_start m")
                case StartAbsent
                then show ?thesis
                  using that(8) [OF np ns fresh] startless_call [OF np ns fresh binary l] by blast
              next
                case StartThrows
                then show ?thesis
                  using that(9) [OF np ns fresh] throwing_call [OF np ns fresh binary l] by blast
              next
                case StartReturns
                then show ?thesis
                  using that(10) [OF np ns fresh binary l] first_call [OF np ns fresh binary l]
                  by blast
              qed
            qed
          qed
        qed
      qed
    qed
  qed
qed




lemma call_marks:
  "initializedModules (snd (getQueryEngineForProvider d w st q)) = initializedModules st \<or>
   initializedModules (snd (getQueryEngineForProvider d w st q)) = insert q (initializedModules st)"
  by (cases rule: call_cases [of d q w st]) simp_all


subsection \<open>What a call does to the state\<close>

lemma call_newly_marked:
  assumes "q \<in> initializedModules (snd (getQueryEngineForProvider d w st p))"
    and "q \<notin> initializedModules st"
  shows "q = p \<and>
         (\<exists>h. fst (getQueryEngineForProvider d w st p) = Inr h) \<and>
         (\<exists>np ns m. supported d p = Some np \<and> resolves w st (glue_specifier np) = Some ns \<and>
            wasm_files w (wasm_path d np) = Some (Binary m) \<and> links ns m \<and>
            wbindgen_start m = StartReturns) \<and>
         (\<exists>pre s i. effects_since st (snd (getQueryEngineForProvider d w st p)) =
            pre @ [(p, Instantiate s i), (p, BindExports s i), (p, Start i),
                   (p, MarkInitialized)])"
proof (cases rule: call_cases [of d p w st])
  case (first np ns m)
  have "effects_since st (snd (getQueryEngineForProvider d w st p)) =
          [(p, ResolveModule (glue_specifier np)), (p, ReadFile (wasm_path d np)),
           (p, Compile (Binary m))] @
          [(p, Instantiate (glue_specifier np) (instances st)),
           (p, BindExports (glue_specifier np) (instances st)),
           (p, Start (instances st)), (p, MarkInitialized)]"
    by (simp add: first effects_since_def)
  then have "\<exists>pre s i. effects_since st (snd (getQueryEngineForProvider d w st p)) =
      pre @ [(p, Instantiate s i), (p, BindExports s i), (p, Start i), (p, MarkInitialized)]"
    by blast
  moreover have "q = p"
    using assms by (simp add: first)
  ultimately show ?thesis
    using first by auto
qed (use assms in simp_all)

lemma call_unmarked_iff:
  assumes "p \<notin> initializedModules st"
  shows "p \<in> initializedModules (snd (getQueryEngineForProvider d w st p)) \<longleftrightarrow>
         (\<exists>h. fst (getQueryEngineForProvider d w st p) = Inr h)"
  using assms by (cases rule: call_cases [of d p w st]) simp_all

lemma call_reattempts:
  assumes "supported d p = Some np"
    and "loaded st (glue_specifier np) = Some ns"
    and "p \<notin> initializedModules st"
  shows "take 2 (effects_since st (snd (getQueryEngineForProvider d w st p))) =
           [(p, ResolveModule (glue_specifier np)), (p, ReadFile (wasm_path d np))]"
  using assms
  by (cases rule: call_cases [of d p w st]) (simp_all add: effects_since_def resolves_def)

lemma call_bound_below:
  assumes "\<And>s i. bound_wasm st s = Some i \<Longrightarrow> i < instances st"
    and "bound_wasm (snd (getQueryEngineForProvider d w st p)) s = Some i"
  shows "i < instances (snd (getQueryEngineForProvider d w st p))"
  using assms
  by (cases rule: call_cases [of d p w st]) (auto simp: less_Suc_eq split: if_splits)

lemma calls_bound_below:
  assumes "\<And>s i. bound_wasm st s = Some i \<Longrightarrow> i < instances st"
    and "bound_wasm (calls d st cs) s = Some i"
  shows "i < instances (calls d st cs)"
  using assms
proof (induction cs arbitrary: st)
  case Nil
  then show ?case by simp
next
  case (Cons c cs)
  obtain w p where c: "c = (w, p)" by (cases c)
  show ?case
    using Cons.prems(2) call_bound_below [OF Cons.prems(1)]
    by (auto simp: c intro: Cons.IH [of "snd (getQueryEngineForProvider d w st p)"])
qed

lemma reachable_bound_below:
  "bound_wasm (calls d initial_state cs) s = Some i \<Longrightarrow> i < instances (calls d initial_state cs)"
  by (rule calls_bound_below [of initial_state]) (simp_all add: initial_state_def)

lemma calls_marks_kept: "initializedModules st \<subseteq> initializedModules (calls d st cs)"
proof (induction cs arbitrary: st)
  case Nil
  then show ?case by simp
next
  case (Cons c cs)
  obtain w p where c: "c = (w, p)" by (cases c)
  have "initializedModules st \<subseteq> initializedModules (snd (getQueryEngineForProvider d w st p))"
    using call_marks [of d w st p] by auto
  also have "\<dots> \<subseteq> initializedModules (calls d (snd (getQueryEngineForProvider d w st p)) cs)"
    by (rule Cons.IH)
  finally show ?case by (simp add: c)
qed

subsection \<open>A provider that is initialised\<close>










subsection \<open>Calls that are suspended and resumed\<close>

text \<open>
  A single task resumed three times in a row is the call run without interruption.
\<close>

lemma run_alone:
  "run d w [0, 0, 0] ([Called p], st) =
     ([Settled (fst (getQueryEngineForProvider d w st p))],
      snd (getQueryEngineForProvider d w st p))"
  by (auto simp: getQueryEngineForProvider_def split: sum.splits prod.splits)

lemma resume_settled: "resume d w (Settled r) st = (Settled r, st)"
  by simp

lemma resume_called:
  assumes "supported d p = Some np"
    and "resolves w st (glue_specifier np) = Some ns"
  shows "resume d w (Called p) st =
           (AwaitingImport p np (Inr (glue_specifier np, ns)),
            st\<lparr>loaded := (loaded st)(glue_specifier np \<mapsto> ns),
               trace := trace st @ [(p, ResolveModule (glue_specifier np))]\<rparr>)"
  using assms by (simp add: normaliseProvider_def import_module_resolves)

lemma resume_import_marked:
  assumes "p \<in> initializedModules st"
  shows "resume d w (AwaitingImport p np (Inr (s, ns))) st =
           (Settled (Inr (get_export ns ''QueryEngine'')), st)"
  using assms by simp

lemma resume_import_unmarked:
  assumes "p \<notin> initializedModules st"
    and "wasm_files w (wasm_path d np) = Some b"
  shows "resume d w (AwaitingImport p np (Inr (s, ns))) st =
           (AwaitingRead p (s, ns) (Inr b),
            st\<lparr>trace := trace st @ [(p, ReadFile (wasm_path d np))]\<rparr>)"
  using assms by (simp add: readFile_def log_def)

lemma resume_read:
  assumes "links ns m" and "wbindgen_start m = StartReturns"
  shows "resume d w (AwaitingRead p (s, ns) (Inr (Binary m))) st =
           (Settled (Inr (get_export ns ''QueryEngine'')),
            st\<lparr>initializedModules := insert p (initializedModules st),
               bound_wasm := (bound_wasm st)(s \<mapsto> instances st),
               instances := Suc (instances st),
               trace := trace st @
                 [(p, Compile (Binary m)), (p, Instantiate s (instances st)),
                  (p, BindExports s (instances st)), (p, Start (instances st)),
                  (p, MarkInitialized)]\<rparr>)"
  by (simp add: link_and_start_returns [OF assms])

lemma schedules:
  "interleavings [0, 0, 0] [1, 1, 1::nat] =
     [[0, 0, 0, 1, 1, 1], [0, 0, 1, 0, 1, 1], [0, 0, 1, 1, 0, 1], [0, 0, 1, 1, 1, 0],
      [0, 1, 0, 0, 1, 1], [0, 1, 0, 1, 0, 1], [0, 1, 0, 1, 1, 0], [0, 1, 1, 0, 0, 1],
      [0, 1, 1, 0, 1, 0], [0, 1, 1, 1, 0, 0], [1, 0, 0, 0, 1, 1], [1, 0, 0, 1, 0, 1],
      [1, 0, 0, 1, 1, 0], [1, 0, 1, 0, 0, 1], [1, 0, 1, 0, 1, 0], [1, 0, 1, 1, 0, 0],
      [1, 1, 0, 0, 0, 1], [1, 1, 0, 0, 1, 0], [1, 1, 0, 1, 0, 0], [1, 1, 1, 0, 0, 0]]"
  by simp

lemma racing:
  assumes "supported d p = Some np"
    and "resolves w st (glue_specifier np) = Some ns"
    and "p \<notin> initializedModules st"
    and "wasm_files w (wasm_path d np) = Some (Binary m)"
    and "links ns m"
    and "wbindgen_start m = StartReturns"
  shows "run d w [0, 1, 0, 1, 0, 1] ([Called p, Called p], st) =
           ([Settled (Inr (get_export ns ''QueryEngine'')),
             Settled (Inr (get_export ns ''QueryEngine''))],
            st\<lparr>initializedModules := insert p (initializedModules st),
               loaded := (loaded st)(glue_specifier np \<mapsto> ns),
               bound_wasm := (bound_wasm st)(glue_specifier np \<mapsto> Suc (instances st)),
               instances := Suc (Suc (instances st)),
               trace := trace st @
                 [(p, ResolveModule (glue_specifier np)), (p, ResolveModule (glue_specifier np)),
                  (p, ReadFile (wasm_path d np)), (p, ReadFile (wasm_path d np)),
                  (p, Compile (Binary m)), (p, Instantiate (glue_specifier np) (instances st)),
                  (p, BindExports (glue_specifier np) (instances st)),
                  (p, Start (instances st)), (p, MarkInitialized),
                  (p, Compile (Binary m)),
                  (p, Instantiate (glue_specifier np) (Suc (instances st))),
                  (p, BindExports (glue_specifier np) (Suc (instances st))),
                  (p, Start (Suc (instances st))), (p, MarkInitialized)]\<rparr>)"
  using assms
  by (simp add: resume_called resume_import_marked resume_import_unmarked resume_read
      resolves_def del: resume.simps)

subsection \<open>Invariants of a process lifetime\<close>




lemma link_and_start_marks_kept:
  "initializedModules st \<subseteq> initializedModules (snd (link_and_start p eng b st))"
  by (auto simp: link_and_start_def log_def Let_def
      split: payload.splits start_export.splits)

lemma resume_marks_kept: "initializedModules st \<subseteq> initializedModules (snd (resume d w t st))"
proof (cases t)
  case (Called p)
  then show ?thesis
    by (auto simp: import_module_def log_def Let_def split: sum.splits option.splits)
next
  case (AwaitingImport p np outcome)
  then show ?thesis
    by (auto simp: readFile_def log_def Let_def split: sum.splits option.splits)
next
  case (AwaitingRead p eng outcome)
  show ?thesis
  proof (cases outcome)
    case (Inl e)
    with AwaitingRead show ?thesis by simp
  next
    case (Inr b)
    obtain r st1 where linked: "link_and_start p eng b st = (r, st1)"
      by (cases "link_and_start p eng b st")
    have "initializedModules st \<subseteq> initializedModules st1"
      using link_and_start_marks_kept [of st p eng b] by (simp add: linked)
    then show ?thesis
      by (cases r) (simp_all add: AwaitingRead Inr linked)
  qed
next
  case (Settled r)
  then show ?thesis by simp
qed

lemma run_marks_kept:
  "initializedModules st \<subseteq> initializedModules (snd (run d w schedule (tasks, st)))"
proof (induction schedule arbitrary: tasks st)
  case Nil
  then show ?case by simp
next
  case (Cons i schedule)
  show ?case
  proof (cases "i < length tasks")
    case True
    obtain t st1 where step: "resume d w (tasks ! i) st = (t, st1)"
      by (cases "resume d w (tasks ! i) st")
    have "initializedModules st \<subseteq> initializedModules st1"
      using resume_marks_kept [of st d w "tasks ! i"] by (simp add: step)
    also have "\<dots> \<subseteq> initializedModules (snd (run d w schedule (tasks[i := t], st1)))"
      by (rule Cons.IH)
    finally show ?thesis
      using True by (simp add: step)
  next
    case False
    then show ?thesis
      using Cons.IH [of st tasks] by simp
  qed
qed

subsection \<open>The concrete installation\<close>

lemma example_resolves:
  "resolves example_world initial_state (glue_specifier ''postgresql'') = Some example_glue"
  by (simp add: resolves_def initial_state_def example_world_def example_glue_specifier)

lemma example_links: "links example_glue example_module"
  by (simp add: links_def get_export_def example_glue_def example_module_def)

lemma example_supported: "supported example_deps ''postgresql'' = Some ''postgresql''"
  by (simp add: example_deps_def)

lemma initial_fresh: "p \<notin> initializedModules initial_state"
  by (simp add: initial_state_def)

lemma example_binary:
  "wasm_files example_world (wasm_path example_deps ''postgresql'') = Some (Binary example_module)"
  by (simp add: example_wasm_path example_world_def)

lemma example_start: "wbindgen_start example_module = StartReturns"
  by (simp add: example_module_def)

lemma missing_binary_resolves:
  "resolves missing_binary_world initial_state (glue_specifier ''postgresql'') = Some example_glue"
  by (simp add: resolves_def initial_state_def missing_binary_world_def example_world_def
      example_glue_specifier)

lemma failing_start_resolves:
  "resolves failing_start_world initial_state (glue_specifier ''postgresql'') = Some example_glue"
  by (simp add: resolves_def initial_state_def failing_start_world_def example_world_def
      example_glue_specifier)

lemma failing_start_binary:
  "wasm_files failing_start_world (wasm_path example_deps ''postgresql'') =
     Some (Binary (example_module\<lparr>wbindgen_start := StartThrows\<rparr>))"
  by (simp add: failing_start_world_def example_wasm_path)

lemma failing_start_links: "links example_glue (example_module\<lparr>wbindgen_start := StartThrows\<rparr>)"
  by (simp add: links_def get_export_def example_glue_def example_module_def)

text \<open>
  An export whose binding is \<^verbatim>\<open>undefined\<close> is no function.  With such a
  \<^verbatim>\<open>__wbg_set_wasm\<close> the call of line 33 throws, after the instance has been created
  and before anything is bound, started or marked; with such an import the instantiation
  of line 29 throws.
\<close>

lemma undefined_setter_throws:
  "getQueryEngineForProvider example_deps
     (example_world\<lparr>glue_files :=
        [glue_specifier ''postgresql'' \<mapsto> example_glue(''__wbg_set_wasm'' \<mapsto> Undefined)]\<rparr>)
     initial_state ''postgresql'' =
   (Inl TypeError,
    initial_state
      \<lparr>loaded := [glue_specifier ''postgresql'' \<mapsto> example_glue(''__wbg_set_wasm'' \<mapsto> Undefined)],
       instances := 1,
       trace :=
         [(''postgresql'', ResolveModule (glue_specifier ''postgresql'')),
          (''postgresql'', ReadFile (wasm_path example_deps ''postgresql'')),
          (''postgresql'', Compile (Binary example_module)),
          (''postgresql'', Instantiate (glue_specifier ''postgresql'') 0)]\<rparr>)"
proof -
  let ?ns = "example_glue(''__wbg_set_wasm'' \<mapsto> Undefined)"
  let ?w = "example_world\<lparr>glue_files := [glue_specifier ''postgresql'' \<mapsto> ?ns]\<rparr>"
  have "resolves ?w initial_state (glue_specifier ''postgresql'') = Some ?ns"
    by (simp add: resolves_def initial_state_def)
  moreover have "wasm_files ?w (wasm_path example_deps ''postgresql'') =
      Some (Binary example_module)"
    by (simp add: example_wasm_path example_world_def)
  moreover have "list_all (\<lambda>name. callable (get_export ?ns name)) (wasm_imports example_module)"
    by (simp add: get_export_def example_glue_def example_module_def)
  moreover have "\<not> callable (get_export ?ns ''__wbg_set_wasm'')"
    by (simp add: get_export_def)
  ultimately show ?thesis
    using unbindable_call [OF example_supported _ initial_fresh, of ?w ?ns example_module]
    by (simp add: initial_state_def)
qed

lemma undefined_import_throws:
  "getQueryEngineForProvider example_deps
     (example_world\<lparr>glue_files :=
        [glue_specifier ''postgresql'' \<mapsto> example_glue(''__wbindgen_throw'' \<mapsto> Undefined)]\<rparr>)
     initial_state ''postgresql'' =
   (Inl ModuleLinkError,
    initial_state
      \<lparr>loaded := [glue_specifier ''postgresql'' \<mapsto> example_glue(''__wbindgen_throw'' \<mapsto> Undefined)],
       trace :=
         [(''postgresql'', ResolveModule (glue_specifier ''postgresql'')),
          (''postgresql'', ReadFile (wasm_path example_deps ''postgresql'')),
          (''postgresql'', Compile (Binary example_module)),
          (''postgresql'', Instantiate (glue_specifier ''postgresql'') 0)]\<rparr>)"
proof -
  let ?ns = "example_glue(''__wbindgen_throw'' \<mapsto> Undefined)"
  let ?w = "example_world\<lparr>glue_files := [glue_specifier ''postgresql'' \<mapsto> ?ns]\<rparr>"
  have "resolves ?w initial_state (glue_specifier ''postgresql'') = Some ?ns"
    by (simp add: resolves_def initial_state_def)
  moreover have "wasm_files ?w (wasm_path example_deps ''postgresql'') =
      Some (Binary example_module)"
    by (simp add: example_wasm_path example_world_def)
  moreover have "\<not> list_all (\<lambda>name. callable (get_export ?ns name))
      (wasm_imports example_module)"
    by (simp add: get_export_def example_module_def)
  ultimately show ?thesis
    using unlinkable_call [OF example_supported _ initial_fresh, of ?w ?ns example_module]
    by (simp add: initial_state_def)
qed

subsection \<open>Unsupported providers\<close>

text \<open>
  Claim C4.  For a provider identifier that is not supported, the call fails with the
  \<open>ConfigurationError\<close> of the normalisation step, and it fails before any input or
  output: the state after the call is the state before it, so no module was resolved
  and no file was read, and the log of effects has not grown.
\<close>

theorem unsupported_provider_fails_before_io:
  assumes "supported d p = None"
  shows "getQueryEngineForProvider d w st p = (Inl (ConfigurationError p), st) \<and>
         effects_since st (snd (getQueryEngineForProvider d w st p)) = []"
  using assms
  by (simp add: getQueryEngineForProvider_def normaliseProvider_def effects_since_def)

theorem unsupported_provider_fails_before_io_witness:
  "supported example_deps ''oracle'' = None \<and>
   getQueryEngineForProvider example_deps example_world initial_state ''oracle'' =
     (Inl (ConfigurationError ''oracle''), initial_state) \<and>
   effects_since initial_state
     (snd (getQueryEngineForProvider example_deps example_world initial_state ''oracle'')) = []"
proof -
  have unsupported: "supported example_deps ''oracle'' = None"
    by (simp add: example_deps_def)
  show ?thesis
    using unsupported
      unsupported_provider_fails_before_io [OF unsupported, of example_world initial_state]
    by (simp add: effects_since_def)
qed

subsection \<open>The order of the first initialisation\<close>

text \<open>
  Claim C6.  When a provider is initialised for the first time and every step goes
  through, the call performs exactly these effects in this order: it resolves the glue
  module, reads the binary, compiles the bytes it has read, instantiates the module with
  the glue module as import namespace, hands the export table of the new instance to the
  glue module (\<^verbatim>\<open>__wbg_set_wasm\<close>), calls the start export of that instance once, and
  only then adds the provider to the set.  It returns the glue module's
  \<^verbatim>\<open>QueryEngine\<close>.
\<close>

theorem first_initialisation_sequence:
  assumes "supported d p = Some np"
    and "resolves w st (glue_specifier np) = Some ns"
    and "p \<notin> initializedModules st"
    and "wasm_files w (wasm_path d np) = Some (Binary m)"
    and "links ns m"
    and "wbindgen_start m = StartReturns"
  shows "fst (getQueryEngineForProvider d w st p) = Inr (get_export ns ''QueryEngine'') \<and>
         effects_since st (snd (getQueryEngineForProvider d w st p)) =
           [(p, ResolveModule (glue_specifier np)), (p, ReadFile (wasm_path d np)),
            (p, Compile (Binary m)), (p, Instantiate (glue_specifier np) (instances st)),
            (p, BindExports (glue_specifier np) (instances st)),
            (p, Start (instances st)), (p, MarkInitialized)] \<and>
         bound_wasm (snd (getQueryEngineForProvider d w st p)) (glue_specifier np) =
           Some (instances st) \<and>
         initializedModules (snd (getQueryEngineForProvider d w st p)) =
           insert p (initializedModules st)"
  by (simp add: first_call [OF assms] effects_since_def)

theorem first_initialisation_sequence_witness:
  "fst (getQueryEngineForProvider example_deps example_world initial_state ''postgresql'') =
     Inr (Reference 1) \<and>
   effects_since initial_state
       (snd (getQueryEngineForProvider example_deps example_world initial_state ''postgresql'')) =
     [(''postgresql'', ResolveModule (glue_specifier ''postgresql'')),
      (''postgresql'', ReadFile (wasm_path example_deps ''postgresql'')),
      (''postgresql'', Compile (Binary example_module)),
      (''postgresql'', Instantiate (glue_specifier ''postgresql'') 0),
      (''postgresql'', BindExports (glue_specifier ''postgresql'') 0),
      (''postgresql'', Start 0), (''postgresql'', MarkInitialized)]"
proof -
  have "supported example_deps ''postgresql'' = Some ''postgresql''"
    by (simp add: example_deps_def)
  moreover have "''postgresql'' \<notin> initializedModules initial_state"
    by (simp add: initial_state_def)
  moreover have "wasm_files example_world (wasm_path example_deps ''postgresql'') =
      Some (Binary example_module)"
    by (simp add: example_wasm_path example_world_def)
  moreover have "wbindgen_start example_module = StartReturns"
    by (simp add: example_module_def)
  moreover have "get_export example_glue ''QueryEngine'' = Reference 1"
    by (simp add: get_export_def example_glue_def)
  moreover have "instances initial_state = 0"
    by (simp add: initial_state_def)
  ultimately show ?thesis
    using first_initialisation_sequence [OF _ example_resolves _ _ example_links, of example_deps]
    by simp
qed

subsection \<open>A missing binary\<close>

text \<open>
  Claim C5.  For a supported provider that is not yet initialised and whose binary is
  absent from the disk, the call fails with an \<open>ArtifactNotFoundError\<close> that carries the
  path of the binary; the provider is not added to the set; and a later call, made once
  the binary is there (and links and starts), returns the handle and adds the provider.
\<close>

theorem missing_binary_fails_and_can_be_retried:
  assumes "supported d p = Some np"
    and "resolves w st (glue_specifier np) = Some ns"
    and "p \<notin> initializedModules st"
    and "wasm_files w (wasm_path d np) = None"
  shows "fst (getQueryEngineForProvider d w st p) =
           Inl (ArtifactNotFoundError (wasm_path d np)) \<and>
         initializedModules (snd (getQueryEngineForProvider d w st p)) = initializedModules st \<and>
         (wasm_files w' (wasm_path d np) = Some (Binary m) \<and> links ns m \<and>
          wbindgen_start m = StartReturns \<longrightarrow>
            fst (getQueryEngineForProvider d w' (snd (getQueryEngineForProvider d w st p)) p) =
              Inr (get_export ns ''QueryEngine'') \<and>
            p \<in> initializedModules
                  (snd (getQueryEngineForProvider d w'
                         (snd (getQueryEngineForProvider d w st p)) p)))"
proof -
  let ?st1 = "snd (getQueryEngineForProvider d w st p)"
  note failed = missing_call [OF assms]
  have again: "resolves w' ?st1 (glue_specifier np) = Some ns"
    by (simp add: failed resolves_def)
  have fresh: "p \<notin> initializedModules ?st1"
    using assms(3) by (simp add: failed)
  have "fst (getQueryEngineForProvider d w' ?st1 p) = Inr (get_export ns ''QueryEngine'') \<and>
        p \<in> initializedModules (snd (getQueryEngineForProvider d w' ?st1 p))"
    if "wasm_files w' (wasm_path d np) = Some (Binary m)" "links ns m"
      "wbindgen_start m = StartReturns"
    by (simp add: first_call [OF assms(1) again fresh that])
  then show ?thesis
    using assms(3) by (simp add: failed)
qed

theorem missing_binary_fails_and_can_be_retried_witness:
  "fst (getQueryEngineForProvider example_deps missing_binary_world initial_state ''postgresql'') =
     Inl (ArtifactNotFoundError
       ''/prisma-engines/query-engine/query-engine-wasm/pkg/postgresql/query_engine_bg.wasm'') \<and>
   ''postgresql'' \<notin> initializedModules
     (snd (getQueryEngineForProvider example_deps missing_binary_world initial_state
            ''postgresql'')) \<and>
   fst (getQueryEngineForProvider example_deps example_world
          (snd (getQueryEngineForProvider example_deps missing_binary_world initial_state
                 ''postgresql'')) ''postgresql'') = Inr (Reference 1)"
proof -
  have absent: "wasm_files missing_binary_world (wasm_path example_deps ''postgresql'') = None"
    by (simp add: missing_binary_world_def)
  have handle: "get_export example_glue ''QueryEngine'' = Reference 1"
    by (simp add: get_export_def example_glue_def)
  show ?thesis
    using missing_binary_fails_and_can_be_retried
      [OF example_supported missing_binary_resolves initial_fresh absent,
        of example_world example_module]
      example_binary example_links example_start handle initial_fresh [of "''postgresql''"]
    by (simp add: example_wasm_path)
qed


subsection \<open>A glue module without \<^verbatim>\<open>QueryEngine\<close>\<close>

text \<open>
  Claim C10.  The export \<^verbatim>\<open>QueryEngine\<close> is returned as it is read, without a check
  that it exists: for a glue module that resolves but does not export it, a call that
  gets as far as line 38 (the provider is initialised already, or the initialisation
  goes through) succeeds and returns \<^verbatim>\<open>undefined\<close>.
\<close>

theorem missing_QueryEngine_export_returns_undefined:
  assumes "supported d p = Some np"
    and "resolves w st (glue_specifier np) = Some ns"
    and "ns ''QueryEngine'' = None"
    and "p \<in> initializedModules st \<or>
         wasm_files w (wasm_path d np) = Some (Binary m) \<and> links ns m \<and>
         wbindgen_start m = StartReturns"
  shows "fst (getQueryEngineForProvider d w st p) = Inr Undefined"
proof (cases "p \<in> initializedModules st")
  case True
  then show ?thesis
    using assms(3) by (simp add: later_call [OF assms(1,2)] get_export_def)
next
  case False
  with assms(4) show ?thesis
    using assms(3) by (simp add: first_call [OF assms(1,2) False] get_export_def)
qed

theorem missing_QueryEngine_export_returns_undefined_witness:
  "fst (getQueryEngineForProvider example_deps
          (example_world\<lparr>glue_files :=
             [glue_specifier ''postgresql'' \<mapsto> example_glue(''QueryEngine'' := None)]\<rparr>)
          initial_state ''postgresql'') = Inr Undefined"
proof -
  let ?ns = "example_glue(''QueryEngine'' := None)"
  let ?w = "example_world\<lparr>glue_files := [glue_specifier ''postgresql'' \<mapsto> ?ns]\<rparr>"
  have "supported example_deps ''postgresql'' = Some ''postgresql''"
    by (simp add: example_deps_def)
  moreover have "resolves ?w initial_state (glue_specifier ''postgresql'') = Some ?ns"
    by (simp add: resolves_def initial_state_def)
  moreover have "?ns ''QueryEngine'' = None"
    by simp
  moreover have "wasm_files ?w (wasm_path example_deps ''postgresql'') =
      Some (Binary example_module)"
    by (simp add: example_wasm_path example_world_def)
  moreover have "links ?ns example_module"
    by (simp add: links_def get_export_def example_glue_def example_module_def)
  moreover have "wbindgen_start example_module = StartReturns"
    by (simp add: example_module_def)
  ultimately show ?thesis
    using missing_QueryEngine_export_returns_undefined
      [of example_deps "''postgresql''" "''postgresql''" ?w initial_state ?ns example_module]
    by blast
qed

subsection \<open>A start export that throws\<close>

text \<open>
  Claim C2.  When everything up to the start export goes through and the start export
  throws, the call fails with \<open>ModuleInitError\<close> and the set is as it was: the
  provider is not added.  A later call, in whatever world, attempts the initialisation
  again (it resolves the module and reads the binary anew); it adds the provider exactly
  when it returns a handle, and then the addition is the last effect of the call, after
  the instantiation and after the call of the start export; with a module that links and
  whose start export returns, it does return the handle.
\<close>

theorem failing_start_leaves_provider_unmarked:
  assumes "supported d p = Some np"
    and "resolves w st (glue_specifier np) = Some ns"
    and "p \<notin> initializedModules st"
    and "wasm_files w (wasm_path d np) = Some (Binary m)"
    and "links ns m"
    and "wbindgen_start m = StartThrows"
  shows "fst (getQueryEngineForProvider d w st p) = Inl ModuleInitError \<and>
         initializedModules (snd (getQueryEngineForProvider d w st p)) = initializedModules st \<and>
         take 2 (effects_since (snd (getQueryEngineForProvider d w st p))
                   (snd (getQueryEngineForProvider d w'
                          (snd (getQueryEngineForProvider d w st p)) p))) =
           [(p, ResolveModule (glue_specifier np)), (p, ReadFile (wasm_path d np))] \<and>
         ((p \<in> initializedModules
                 (snd (getQueryEngineForProvider d w'
                        (snd (getQueryEngineForProvider d w st p)) p))) =
          (\<exists>h. fst (getQueryEngineForProvider d w'
                      (snd (getQueryEngineForProvider d w st p)) p) = Inr h)) \<and>
         (p \<in> initializedModules
                (snd (getQueryEngineForProvider d w'
                       (snd (getQueryEngineForProvider d w st p)) p)) \<longrightarrow>
            (\<exists>pre s i.
               effects_since (snd (getQueryEngineForProvider d w st p))
                 (snd (getQueryEngineForProvider d w'
                        (snd (getQueryEngineForProvider d w st p)) p)) =
               pre @ [(p, Instantiate s i), (p, BindExports s i), (p, Start i),
                      (p, MarkInitialized)])) \<and>
         (wasm_files w' (wasm_path d np) = Some (Binary m') \<and> links ns m' \<and>
          wbindgen_start m' = StartReturns \<longrightarrow>
            fst (getQueryEngineForProvider d w' (snd (getQueryEngineForProvider d w st p)) p) =
              Inr (get_export ns ''QueryEngine''))"
proof -
  let ?st1 = "snd (getQueryEngineForProvider d w st p)"
  note failed = throwing_call [OF assms]
  have cached: "loaded ?st1 (glue_specifier np) = Some ns"
    by (simp add: failed)
  have fresh: "p \<notin> initializedModules ?st1"
    using assms(3) by (simp add: failed)
  have "fst (getQueryEngineForProvider d w' ?st1 p) = Inr (get_export ns ''QueryEngine'')"
    if "wasm_files w' (wasm_path d np) = Some (Binary m')" "links ns m'"
      "wbindgen_start m' = StartReturns"
    by (simp add: first_call [OF assms(1) resolves_loaded [OF cached] fresh that])
  moreover have "fst (getQueryEngineForProvider d w st p) = Inl ModuleInitError"
    by (simp add: failed)
  moreover have "initializedModules ?st1 = initializedModules st"
    by (simp add: failed)
  moreover have "\<exists>pre s i.
      effects_since ?st1 (snd (getQueryEngineForProvider d w' ?st1 p)) =
      pre @ [(p, Instantiate s i), (p, BindExports s i), (p, Start i), (p, MarkInitialized)]"
    if "p \<in> initializedModules (snd (getQueryEngineForProvider d w' ?st1 p))"
    using call_newly_marked [OF that fresh] by blast
  ultimately show ?thesis
    using call_reattempts [OF assms(1) cached fresh, of w'] call_unmarked_iff [OF fresh, of d w']
    by blast
qed

theorem failing_start_leaves_provider_unmarked_witness:
  "fst (getQueryEngineForProvider example_deps failing_start_world initial_state ''postgresql'') =
     Inl ModuleInitError \<and>
   ''postgresql'' \<notin> initializedModules
     (snd (getQueryEngineForProvider example_deps failing_start_world initial_state
            ''postgresql'')) \<and>
   fst (getQueryEngineForProvider example_deps example_world
          (snd (getQueryEngineForProvider example_deps failing_start_world initial_state
                 ''postgresql'')) ''postgresql'') = Inr (Reference 1) \<and>
   ''postgresql'' \<in> initializedModules
     (snd (getQueryEngineForProvider example_deps example_world
            (snd (getQueryEngineForProvider example_deps failing_start_world initial_state
                   ''postgresql'')) ''postgresql''))"
proof -
  have handle: "get_export example_glue ''QueryEngine'' = Reference 1"
    by (simp add: get_export_def example_glue_def)
  have throws: "wbindgen_start (example_module\<lparr>wbindgen_start := StartThrows\<rparr>) = StartThrows"
    by simp
  show ?thesis
    using failing_start_leaves_provider_unmarked
      [OF example_supported failing_start_resolves initial_fresh failing_start_binary
        failing_start_links throws, of example_world example_module]
      example_binary example_links example_start handle initial_fresh [of "''postgresql''"]
    by simp
qed

text \<open>
  Claim C9.  A start export that throws leaves the set as it was, but not the glue
  module: \<^verbatim>\<open>__wbg_set_wasm\<close> ran before the start export was called, so after the
  failed call the glue module holds the export table of the instance this call created,
  which (in any state the process can reach) is not what it held before; and the call
  returned no handle.
\<close>

theorem failing_start_leaves_glue_bound:
  assumes "st = calls d initial_state cs"
    and "supported d p = Some np"
    and "resolves w st (glue_specifier np) = Some ns"
    and "p \<notin> initializedModules st"
    and "wasm_files w (wasm_path d np) = Some (Binary m)"
    and "links ns m"
    and "wbindgen_start m = StartThrows"
  shows "fst (getQueryEngineForProvider d w st p) = Inl ModuleInitError \<and>
         initializedModules (snd (getQueryEngineForProvider d w st p)) = initializedModules st \<and>
         effects_since st (snd (getQueryEngineForProvider d w st p)) =
           [(p, ResolveModule (glue_specifier np)), (p, ReadFile (wasm_path d np)),
            (p, Compile (Binary m)), (p, Instantiate (glue_specifier np) (instances st)),
            (p, BindExports (glue_specifier np) (instances st)),
            (p, Start (instances st))] \<and>
         bound_wasm (snd (getQueryEngineForProvider d w st p)) (glue_specifier np) =
           Some (instances st) \<and>
         bound_wasm (snd (getQueryEngineForProvider d w st p)) (glue_specifier np) \<noteq>
           bound_wasm st (glue_specifier np)"
proof -
  have "bound_wasm st (glue_specifier np) \<noteq> Some (instances st)"
    using reachable_bound_below [of d cs "glue_specifier np" "instances st"] assms(1)
    by auto
  then show ?thesis
    by (simp add: throwing_call [OF assms(2-7)] effects_since_def)
qed

theorem failing_start_leaves_glue_bound_witness:
  "fst (getQueryEngineForProvider example_deps failing_start_world initial_state ''postgresql'') =
     Inl ModuleInitError \<and>
   initializedModules
     (snd (getQueryEngineForProvider example_deps failing_start_world initial_state
            ''postgresql'')) = {} \<and>
   bound_wasm initial_state (glue_specifier ''postgresql'') = None \<and>
   bound_wasm
     (snd (getQueryEngineForProvider example_deps failing_start_world initial_state
            ''postgresql'')) (glue_specifier ''postgresql'') = Some 0"
proof -
  have start: "initial_state = calls example_deps initial_state []"
    by simp
  have throws: "wbindgen_start (example_module\<lparr>wbindgen_start := StartThrows\<rparr>) = StartThrows"
    by simp
  show ?thesis
    using failing_start_leaves_glue_bound
      [OF start example_supported failing_start_resolves initial_fresh failing_start_binary
        failing_start_links throws]
    by (simp add: initial_state_def)
qed

subsection \<open>Two raw identifiers with one canonical segment\<close>

text \<open>
  Claim C8.  The test of line 18 and the addition of line 35 use the raw
  \<^verbatim>\<open>provider\<close>, the paths use the normalised one.  So for two different raw
  identifiers with the same canonical segment, neither initialised yet, in a world where
  the initialisation goes through (the glue module resolves and has a function for every
  import and for \<^verbatim>\<open>__wbg_set_wasm\<close>, the binary is there, the start export returns), a
  call for the one and then a call for the other each run the whole initialisation: the
  same glue module is resolved, the same binary is read and compiled twice, two
  instances are created, and the glue module ends up bound to the second.
\<close>

theorem distinct_raw_providers_initialise_twice:
  assumes "p \<noteq> q"
    and "supported d p = Some np"
    and "supported d q = Some np"
    and "resolves w st (glue_specifier np) = Some ns"
    and "p \<notin> initializedModules st"
    and "q \<notin> initializedModules st"
    and "wasm_files w (wasm_path d np) = Some (Binary m)"
    and "links ns m"
    and "wbindgen_start m = StartReturns"
  shows "fst (getQueryEngineForProvider d w st p) = Inr (get_export ns ''QueryEngine'') \<and>
         fst (getQueryEngineForProvider d w (snd (getQueryEngineForProvider d w st p)) q) =
           Inr (get_export ns ''QueryEngine'') \<and>
         effects_since st
             (snd (getQueryEngineForProvider d w (snd (getQueryEngineForProvider d w st p)) q)) =
           [(p, ResolveModule (glue_specifier np)), (p, ReadFile (wasm_path d np)),
            (p, Compile (Binary m)), (p, Instantiate (glue_specifier np) (instances st)),
            (p, BindExports (glue_specifier np) (instances st)),
            (p, Start (instances st)), (p, MarkInitialized),
            (q, ResolveModule (glue_specifier np)), (q, ReadFile (wasm_path d np)),
            (q, Compile (Binary m)), (q, Instantiate (glue_specifier np) (Suc (instances st))),
            (q, BindExports (glue_specifier np) (Suc (instances st))),
            (q, Start (Suc (instances st))), (q, MarkInitialized)] \<and>
         bound_wasm
             (snd (getQueryEngineForProvider d w (snd (getQueryEngineForProvider d w st p)) q))
             (glue_specifier np) = Some (Suc (instances st))"
proof -
  let ?st1 = "snd (getQueryEngineForProvider d w st p)"
  note one = first_call [OF assms(2,4,5,7,8,9)]
  have cached: "resolves w ?st1 (glue_specifier np) = Some ns"
    by (simp add: one resolves_def)
  have fresh: "q \<notin> initializedModules ?st1"
    using assms(1,6) by (simp add: one)
  note two = first_call [OF assms(3) cached fresh assms(7,8,9)]
  show ?thesis
    unfolding two by (simp add: one effects_since_def)
qed

theorem distinct_raw_providers_initialise_twice_witness:
  "supported example_deps ''postgres'' = supported example_deps ''postgresql'' \<and>
   map snd (effects_since initial_state
     (snd (getQueryEngineForProvider example_deps example_world
            (snd (getQueryEngineForProvider example_deps example_world initial_state
                   ''postgres'')) ''postgresql''))) =
     [ResolveModule (glue_specifier ''postgresql''),
      ReadFile (wasm_path example_deps ''postgresql''),
      Compile (Binary example_module), Instantiate (glue_specifier ''postgresql'') 0,
      BindExports (glue_specifier ''postgresql'') 0, Start 0, MarkInitialized,
      ResolveModule (glue_specifier ''postgresql''),
      ReadFile (wasm_path example_deps ''postgresql''),
      Compile (Binary example_module), Instantiate (glue_specifier ''postgresql'') 1,
      BindExports (glue_specifier ''postgresql'') 1, Start 1, MarkInitialized]"
proof -
  have differ: "''postgres'' \<noteq> ''postgresql''"
    by simp
  have aliased: "supported example_deps ''postgres'' = Some ''postgresql''"
    by (simp add: example_deps_def)
  have zero: "instances initial_state = 0"
    by (simp add: initial_state_def)
  show ?thesis
    using distinct_raw_providers_initialise_twice
      [OF differ aliased example_supported example_resolves initial_fresh initial_fresh
        example_binary example_links example_start]
    by (simp add: aliased example_supported zero)
qed

subsection \<open>The set only grows\<close>

text \<open>
  Claim C7.  Over any sequence of calls, in whatever worlds, and over any schedule of
  suspended calls, every identifier that is in the set stays in it: the loader has no
  operation that removes one.  And an identifier
  enters the set only in a call for that very identifier that returns a handle, in which
  the module was instantiated and the start export returned; the addition is the last
  effect of that call, after the instantiation, the binding and the start.
\<close>

theorem marker_set_only_grows:
  "initializedModules st \<subseteq> initializedModules (calls d st cs) \<and>
   initializedModules st \<subseteq> initializedModules (snd (run d w' schedule (tasks, st))) \<and>
   (q \<in> initializedModules (snd (getQueryEngineForProvider d w st p)) \<and>
    q \<notin> initializedModules st \<longrightarrow>
      q = p \<and>
      (\<exists>h. fst (getQueryEngineForProvider d w st p) = Inr h) \<and>
      (\<exists>np ns m. supported d p = Some np \<and> resolves w st (glue_specifier np) = Some ns \<and>
         wasm_files w (wasm_path d np) = Some (Binary m) \<and> links ns m \<and>
         wbindgen_start m = StartReturns) \<and>
      (\<exists>pre s i. effects_since st (snd (getQueryEngineForProvider d w st p)) =
         pre @ [(p, Instantiate s i), (p, BindExports s i), (p, Start i),
                (p, MarkInitialized)]))"
  using calls_marks_kept [of st d cs] run_marks_kept [of st d w' schedule tasks]
    call_newly_marked [of q d w st p]
  by blast

theorem marker_set_only_grows_witness:
  "initializedModules initial_state \<subseteq>
     initializedModules (calls example_deps initial_state
       [(failing_start_world, ''postgresql''), (example_world, ''postgresql''),
        (missing_binary_world, ''postgresql'')]) \<and>
   ''postgresql'' \<in> initializedModules
     (snd (getQueryEngineForProvider example_deps example_world initial_state ''postgresql'')) \<and>
   ''postgresql'' \<notin> initializedModules initial_state \<and>
   (\<exists>h. fst (getQueryEngineForProvider example_deps example_world initial_state ''postgresql'') =
      Inr h)"
proof -
  have marked: "''postgresql'' \<in> initializedModules
      (snd (getQueryEngineForProvider example_deps example_world initial_state ''postgresql''))"
    by (simp add: first_call [OF example_supported example_resolves initial_fresh example_binary
          example_links example_start])
  show ?thesis
    using marker_set_only_grows
      [of initial_state example_deps
        "[(failing_start_world, ''postgresql''), (example_world, ''postgresql''),
          (missing_binary_world, ''postgresql'')]"
        example_world "[]" "[]" "''postgresql''" example_world "''postgresql''"]
      marked initial_fresh [of "''postgresql''"]
    by blast
qed

subsection \<open>Idempotent initialisation\<close>





subsection \<open>Two requests in flight\<close>

text \<open>
  Claim C3 says that of two requests for the same provider, not yet initialised, that
  are interleaved at the two \<^verbatim>\<open>await\<close>s, at most one runs the compile, instantiate
  and start sequence.  The loader keeps no record of an initialisation in progress: the
  set is tested at line 18 and written at line 35, with the \<^verbatim>\<open>await\<close> of line 19 in
  between.  When the two requests are started together and resumed in turn, both pass
  the test before either has added the provider, and both compile, instantiate, bind and
  start; the glue module ends up bound to the second instance.
\<close>

theorem concurrent_requests_both_initialise:
  "[0, 1, 0, 1, 0, 1::nat] \<in> set (interleavings [0, 0, 0] [1, 1, 1]) \<and>
   fst (run example_deps example_world [0, 1, 0, 1, 0, 1]
          ([Called ''postgresql'', Called ''postgresql''], initial_state)) =
     [Settled (Inr (Reference 1)), Settled (Inr (Reference 1))] \<and>
   map snd (trace (snd (run example_deps example_world [0, 1, 0, 1, 0, 1]
                          ([Called ''postgresql'', Called ''postgresql''], initial_state)))) =
     [ResolveModule (glue_specifier ''postgresql''), ResolveModule (glue_specifier ''postgresql''),
      ReadFile (wasm_path example_deps ''postgresql''),
      ReadFile (wasm_path example_deps ''postgresql''),
      Compile (Binary example_module), Instantiate (glue_specifier ''postgresql'') 0,
      BindExports (glue_specifier ''postgresql'') 0, Start 0, MarkInitialized,
      Compile (Binary example_module), Instantiate (glue_specifier ''postgresql'') 1,
      BindExports (glue_specifier ''postgresql'') 1, Start 1, MarkInitialized] \<and>
   \<not> occurrences ''postgresql'' is_compile
       (trace (snd (run example_deps example_world [0, 1, 0, 1, 0, 1]
                      ([Called ''postgresql'', Called ''postgresql''], initial_state)))) \<le> 1"
proof -
  have "get_export example_glue ''QueryEngine'' = Reference 1"
    by (simp add: get_export_def example_glue_def)
  moreover have "trace initial_state = []" "instances initial_state = 0"
    by (simp_all add: initial_state_def)
  ultimately show ?thesis
    unfolding racing [OF example_supported example_resolves initial_fresh example_binary
        example_links example_start]
    by (simp add: schedules occurrences_def)
qed

text \<open>
  Claim C3, amended.  Let the provider be supported and not yet initialised, and let the
  initialisation go through: the glue module resolves, the binary is there, the glue
  module has a function for each of its imports and for \<^verbatim>\<open>__wbg_set_wasm\<close>, and the
  start export returns.  Then in every interleaving of the two requests both return the
  same handle and the provider ends up in the set.  The read, compile, instantiate,
  bind, start and mark steps are each executed once when one request has finished before
  the other makes the test of line 18, and twice otherwise.
\<close>

theorem concurrent_requests_share_handle:
  assumes "supported d p = Some np"
    and "resolves w st (glue_specifier np) = Some ns"
    and "p \<notin> initializedModules st"
    and "wasm_files w (wasm_path d np) = Some (Binary m)"
    and "links ns m"
    and "wbindgen_start m = StartReturns"
    and "schedule \<in> set (interleavings [0, 0, 0] [1, 1, 1])"
  shows "fst (run d w schedule ([Called p, Called p], st)) =
           [Settled (Inr (get_export ns ''QueryEngine'')),
            Settled (Inr (get_export ns ''QueryEngine''))] \<and>
         p \<in> initializedModules (snd (run d w schedule ([Called p, Called p], st))) \<and>
         map (\<lambda>kind. occurrences p kind
                (effects_since st (snd (run d w schedule ([Called p, Called p], st)))))
           [is_read, is_compile, is_instantiate, is_bind, is_start, is_mark] =
           replicate 6
             (if finishes_before 0 1 schedule \<or> finishes_before 1 0 schedule then 1 else 2)"
proof -
  from assms(7) consider
      "schedule = [0, 0, 0, 1, 1, 1]" | "schedule = [0, 0, 1, 0, 1, 1]"
    | "schedule = [0, 0, 1, 1, 0, 1]" | "schedule = [0, 0, 1, 1, 1, 0]"
    | "schedule = [0, 1, 0, 0, 1, 1]" | "schedule = [0, 1, 0, 1, 0, 1]"
    | "schedule = [0, 1, 0, 1, 1, 0]" | "schedule = [0, 1, 1, 0, 0, 1]"
    | "schedule = [0, 1, 1, 0, 1, 0]" | "schedule = [0, 1, 1, 1, 0, 0]"
    | "schedule = [1, 0, 0, 0, 1, 1]" | "schedule = [1, 0, 0, 1, 0, 1]"
    | "schedule = [1, 0, 0, 1, 1, 0]" | "schedule = [1, 0, 1, 0, 0, 1]"
    | "schedule = [1, 0, 1, 0, 1, 0]" | "schedule = [1, 0, 1, 1, 0, 0]"
    | "schedule = [1, 1, 0, 0, 0, 1]" | "schedule = [1, 1, 0, 0, 1, 0]"
    | "schedule = [1, 1, 0, 1, 0, 0]" | "schedule = [1, 1, 1, 0, 0, 0]"
    unfolding schedules by (elim set_ConsD [elim_format] disjE) simp_all
  then show ?thesis
    using assms(1-6)
    by cases
      (simp_all add: resume_called resume_import_marked resume_import_unmarked resume_read
        resume_settled resolves_def effects_since_def occurrences_def finishes_before_def
        numeral_eq_Suc del: resume.simps)
qed

theorem concurrent_requests_share_handle_witness:
  "[0, 0, 1, 0, 1, 1] \<in> set (interleavings [0, 0, 0] [1, 1, 1::nat]) \<and>
   fst (run example_deps example_world [0, 0, 1, 0, 1, 1]
          ([Called ''postgresql'', Called ''postgresql''], initial_state)) =
     [Settled (Inr (Reference 1)), Settled (Inr (Reference 1))] \<and>
   map (\<lambda>kind. occurrences ''postgresql'' kind
          (effects_since initial_state
             (snd (run example_deps example_world [0, 0, 1, 0, 1, 1]
                     ([Called ''postgresql'', Called ''postgresql''], initial_state)))))
     [is_read, is_compile, is_instantiate, is_bind, is_start, is_mark] = [1, 1, 1, 1, 1, 1]"
proof -
  have listed: "[0, 0, 1, 0, 1, 1] \<in> set (interleavings [0, 0, 0] [1, 1, 1::nat])"
    unfolding schedules by simp
  have serial: "finishes_before 0 1 [0, 0, 1, 0, 1, 1]"
    by (simp add: finishes_before_def)
  have handle: "get_export example_glue ''QueryEngine'' = Reference 1"
    by (simp add: get_export_def example_glue_def)
  show ?thesis
    using concurrent_requests_share_handle
      [OF example_supported example_resolves initial_fresh example_binary example_links
        example_start listed]
      listed serial handle
    by (simp add: numeral_eq_Suc)
qed

end
